theory Spec2Isabelle
  imports Complex_Main "HOL-Library.Sublist"
begin

section \<open>Configuration globals\<close>

text \<open>
  The module-level constants of \<^verbatim>\<open>analyze_game.py\<close>. Python floats are modelled as
  \<^typ>\<open>real\<close>: the arithmetic below is the exact one, without IEEE rounding.
\<close>

definition TIME_LIMIT :: real where
  "TIME_LIMIT = 11"

definition QUICK_ANALYSIS_TIME :: real where
  "QUICK_ANALYSIS_TIME = 1 / 10"

definition QUICK_ANALYSIS_PLY :: nat where
  "QUICK_ANALYSIS_PLY = 50"

definition TOP_N :: nat where
  "TOP_N = 20"

definition GAME_OVER_EVAL_THRESHOLD :: real where
  "GAME_OVER_EVAL_THRESHOLD = 10"

definition ANALYSIS_MODE :: string where
  "ANALYSIS_MODE = ''stability''"

definition STABILITY_THRESHOLD :: real where
  "STABILITY_THRESHOLD = 10"

section \<open>Data model\<close>

text \<open>A move is identified by its UCI text; moves are only compared for equality.\<close>

type_synonym move = string

text \<open>
  The relative score of the engine library, as \<^verbatim>\<open>_extract_evaluation\<close> reads it:
  \<^verbatim>\<open>is_mate()\<close> holds for \<open>Mate d\<close> and \<open>d\<close> is what \<^verbatim>\<open>mate()\<close> returns (positive when
  the side to move mates, negative or zero when it is being mated); \<open>Cp c\<close> has
  \<^verbatim>\<open>cp = c\<close>, in centipawns.
\<close>

datatype relative_score = Cp int | Mate int

text \<open>
  One update of the engine (an info dictionary). A key that is missing from the dictionary
  is \<open>None\<close>; \<open>score\<close> holds the \<^verbatim>\<open>.relative\<close> part of the score.
\<close>

record info =
  pv :: "move list option"
  score :: "relative_score option"
  depth :: "nat option"

text \<open>The dictionary returned by \<^verbatim>\<open>analyze_position\<close>.\<close>

record analysis_result =
  best_move :: "move option"
  evaluation :: "real option"
  principal_variation :: "move list"
  time_taken :: real

text \<open>The dictionary that \<^verbatim>\<open>analyze_game\<close> appends for each ply.\<close>

record move_data =
  move_number :: nat
  player :: string
  move :: move
  san :: string
  eval_before :: "real option"
  eval_after :: "real option"
  eval_change :: "real option"
  board_fen :: string
  pre_move_fen :: string
  ply_index :: nat
  time_taken_before :: real
  time_taken_after :: real
  position_analysis :: analysis_result

datatype error = RuntimeError string | TypeError string

section \<open>Evaluation normalisation and swing\<close>

text \<open>\<^verbatim>\<open>GameAnalyzer._extract_evaluation\<close> (lines 138 to 152).\<close>

definition extract_evaluation :: "info \<Rightarrow> real option" where
  "extract_evaluation i =
     (case score i of
        Some (Mate mate_distance) \<Rightarrow>
          if mate_distance > 0 then Some (real_of_int (min 99 (1000 - mate_distance)))
          else Some (real_of_int (max (- 99) (- 1000 + mate_distance)))
      | Some (Cp c) \<Rightarrow> Some (real_of_int c / 100)
      | None \<Rightarrow> None)"

text \<open>\<^verbatim>\<open>GameAnalyzer._calculate_eval_change\<close> (lines 154 to 168).\<close>

definition calculate_eval_change :: "real option \<Rightarrow> real option \<Rightarrow> real option" where
  "calculate_eval_change eval_before' eval_after' =
     (if eval_before' = None \<or> eval_after' = None then None
      else Some ((- the eval_after') - the eval_before'))"

text \<open>The range that the data model gives every evaluation score: absent, or in \<open>[-99, 99]\<close>.\<close>

fun within_bounds :: "real option \<Rightarrow> bool" where
  "within_bounds None = True"
| "within_bounds (Some v) = (- 99 \<le> v \<and> v \<le> 99)"

text \<open>An update that carries the given score and nothing else.\<close>

definition score_only :: "relative_score option \<Rightarrow> info" where
  "score_only s = \<lparr>pv = None, score = s, depth = None\<rparr>"

text \<open>Comparison of the magnitudes of two scores that are both present.\<close>

fun larger_magnitude :: "real option \<Rightarrow> real option \<Rightarrow> bool" where
  "larger_magnitude (Some a) (Some b) = (\<bar>b\<bar> < \<bar>a\<bar>)"
| "larger_magnitude _ _ = False"

fun not_smaller_magnitude :: "real option \<Rightarrow> real option \<Rightarrow> bool" where
  "not_smaller_magnitude (Some a) (Some b) = (\<bar>b\<bar> \<le> \<bar>a\<bar>)"
| "not_smaller_magnitude _ _ = False"

section \<open>Collaborators: the engine, the clock and the board\<close>

text \<open>
  The engine is an external process; the model takes its answers as given. \<open>analyse\<close> is
  the blocking request (with \<^verbatim>\<open>multipv=1\<close> it returns a list of info dictionaries) and
  \<open>analysis\<close> is the stream of updates of a streaming request, both for a position and a
  time limit in seconds. Each update of a stream is paired with the reading of
  \<^verbatim>\<open>time.time()\<close> that decides the state while the update is processed (line 226 when
  the best move changes, line 258 otherwise); the other readings taken while an update
  is processed are only printed.
\<close>

record 'b uci_engine =
  analyse :: "'b \<Rightarrow> real \<Rightarrow> info list"
  analysis :: "'b \<Rightarrow> real \<Rightarrow> (real \<times> info) list"

text \<open>The object \<^verbatim>\<open>GameAnalyzer\<close>: \<open>engine\<close> is \<open>None\<close> until the context is entered.\<close>

record 'b game_analyzer =
  stockfish_path :: string
  engine :: "'b uci_engine option"

text \<open>
  The readings of \<^verbatim>\<open>time.time()\<close> before and after the engine is asked about a position.
\<close>

type_synonym 'b clock = "'b \<Rightarrow> real \<times> real"

text \<open>The operations of the chess library on a board of type \<open>'b\<close>.\<close>

record 'b board_ops =
  op_push :: "'b \<Rightarrow> move \<Rightarrow> 'b"
  op_san :: "'b \<Rightarrow> move \<Rightarrow> string"
  op_fen :: "'b \<Rightarrow> string"
  op_is_game_over :: "'b \<Rightarrow> bool"
  op_turn_white :: "'b \<Rightarrow> bool"

text \<open>A parsed game: its starting board and the moves of its main line.\<close>

record 'b game =
  start_board :: 'b
  mainline :: "move list"

definition not_initialized :: error where
  "not_initialized = RuntimeError ''Engine not initialized. Use with statement.''"

section \<open>Streaming analysis of one position\<close>

text \<open>A loop body either goes on with a new state or leaves the loop with one.\<close>

datatype 'a loop = Continue 'a | Break 'a

text \<open>The local variables of the stability loop of \<^verbatim>\<open>analyze_position\<close> (lines 205 to 209).\<close>

record tracking =
  last_best_move :: "move option"
  last_change_time :: real
  best_pv :: "move list option"
  best_eval :: "real option"
  last_depth :: nat

definition initial_tracking :: "real \<Rightarrow> tracking" where
  "initial_tracking start_time =
     \<lparr>last_best_move = None, last_change_time = start_time, best_pv = None,
      best_eval = None, last_depth = 0\<rparr>"

definition depth_of :: "info \<Rightarrow> nat" where
  "depth_of i = (case depth i of None \<Rightarrow> 0 | Some d \<Rightarrow> d)"

text \<open>
  The body of the loop at lines 213 to 268 for one update, received at clock reading
  \<open>now\<close>. An update without a variation is skipped. When the best move is unchanged the
  stability test comes first and leaves the loop before the refinement is stored.
\<close>

definition stability_step :: "tracking \<Rightarrow> real \<times> info \<Rightarrow> tracking loop" where
  "stability_step st u =
     (case u of (now, i) \<Rightarrow>
        (case pv i of
           None \<Rightarrow> Continue st
         | Some [] \<Rightarrow> Continue st
         | Some (current_best_move # rest) \<Rightarrow>
             if Some current_best_move \<noteq> last_best_move st then
               Continue (st\<lparr>last_best_move := Some current_best_move,
                            last_change_time := now,
                            best_pv := Some (current_best_move # rest),
                            best_eval := extract_evaluation i,
                            last_depth := depth_of i\<rparr>)
             else if now - last_change_time st \<ge> STABILITY_THRESHOLD then Break st
             else
               Continue (st\<lparr>best_pv := Some (current_best_move # rest),
                            best_eval := extract_evaluation i,
                            last_depth := depth_of i\<rparr>)))"

text \<open>
  The loop over the stream. The flag of the result tells whether the loop was left by
  \<^verbatim>\<open>break\<close> (the best move was stable) or because the stream ended.
\<close>

fun stability_loop :: "tracking \<Rightarrow> (real \<times> info) list \<Rightarrow> tracking \<times> bool" where
  "stability_loop st [] = (st, False)"
| "stability_loop st (u # us) =
     (case stability_step st u of
        Break st' \<Rightarrow> (st', True)
      | Continue st' \<Rightarrow> stability_loop st' us)"

text \<open>\<^verbatim>\<open>GameAnalyzer.analyze_position\<close> (lines 184 to 301).\<close>

definition analyze_position ::
  "'b game_analyzer \<Rightarrow> 'b clock \<Rightarrow> 'b \<Rightarrow> real \<Rightarrow> error + analysis_result" where
  "analyze_position self clock board time_limit =
     (case engine self of
        None \<Rightarrow> Inl not_initialized
      | Some eng \<Rightarrow>
          let start_time = fst (clock board);
              end_time = snd (clock board);
              use_stability = (ANALYSIS_MODE = ''stability'' \<and> time_limit \<noteq> QUICK_ANALYSIS_TIME)
          in
            if use_stability then
              let st = fst (stability_loop (initial_tracking start_time) (analysis eng board 86400))
              in Inr \<lparr>best_move = last_best_move st,
                      evaluation = best_eval st,
                      principal_variation = (case best_pv st of None \<Rightarrow> [] | Some p \<Rightarrow> take 7 p),
                      time_taken = end_time - start_time\<rparr>
            else
              let analysis_result = \<lparr>best_move = None, evaluation = None,
                                     principal_variation = [], time_taken = end_time - start_time\<rparr>
              in
                (case analyse eng board time_limit of
                   [] \<Rightarrow> Inr analysis_result
                 | i # _ \<Rightarrow>
                     let with_pv =
                           (case pv i of
                              Some (m # ms) \<Rightarrow>
                                analysis_result\<lparr>best_move := Some m,
                                                principal_variation := take 7 (m # ms)\<rparr>
                            | _ \<Rightarrow> analysis_result)
                     in Inr (if score i \<noteq> None
                             then with_pv\<lparr>evaluation := extract_evaluation i\<rparr>
                             else with_pv)))"

section \<open>Single pass over a game\<close>

text \<open>The choice of the time limit in \<^verbatim>\<open>analyze_game\<close> (lines 95 to 101).\<close>

definition time_limit_for :: "nat \<Rightarrow> real option \<Rightarrow> real" where
  "time_limit_for ply eval_before' =
     (if ply + 1 < QUICK_ANALYSIS_PLY then QUICK_ANALYSIS_TIME
      else if eval_before' \<noteq> None \<and> \<bar>the eval_before'\<bar> > GAME_OVER_EVAL_THRESHOLD
        then QUICK_ANALYSIS_TIME
      else TIME_LIMIT)"

text \<open>
  The loop over the main line (lines 82 to 134), with the local variables \<open>board\<close>,
  \<open>current_analysis\<close>, \<open>move_number\<close>, \<open>ply_index\<close> and \<open>moves_analysis\<close> as arguments.
\<close>

fun analyze_moves ::
  "'b game_analyzer \<Rightarrow> 'b clock \<Rightarrow> 'b board_ops \<Rightarrow> 'b \<Rightarrow> analysis_result \<Rightarrow> nat \<Rightarrow> nat \<Rightarrow>
   move_data list \<Rightarrow> move list \<Rightarrow> error + move_data list" where
  "analyze_moves self clock ops board current_analysis number ply moves_analysis [] =
     Inr moves_analysis"
| "analyze_moves self clock ops board current_analysis number ply moves_analysis (m # nodes) =
     (let board' = op_push ops board m;
          before = evaluation current_analysis
      in case analyze_position self clock board' (time_limit_for ply before) of
           Inl e \<Rightarrow> Inl e
         | Inr next_analysis \<Rightarrow>
             let move_data =
                   \<lparr>move_number = number,
                    player = (if op_turn_white ops board then ''White'' else ''Black''),
                    move = m,
                    san = op_san ops board m,
                    eval_before = before,
                    eval_after = evaluation next_analysis,
                    eval_change = calculate_eval_change before (evaluation next_analysis),
                    board_fen = op_fen ops board',
                    pre_move_fen = op_fen ops board,
                    ply_index = ply,
                    time_taken_before = time_taken current_analysis,
                    time_taken_after = time_taken next_analysis,
                    position_analysis = current_analysis\<rparr>
             in
               if op_is_game_over ops board' then Inr (moves_analysis @ [move_data])
               else analyze_moves self clock ops board' next_analysis
                      (if op_turn_white ops board' then number + 1 else number) (ply + 1)
                      (moves_analysis @ [move_data]) nodes)"

text \<open>\<^verbatim>\<open>GameAnalyzer.analyze_game\<close> (lines 50 to 136).\<close>

definition analyze_game ::
  "'b game_analyzer \<Rightarrow> 'b clock \<Rightarrow> 'b board_ops \<Rightarrow> 'b game \<Rightarrow> error + move_data list" where
  "analyze_game self clock ops game =
     (case engine self of
        None \<Rightarrow> Inl not_initialized
      | Some _ \<Rightarrow>
          (case analyze_position self clock (start_board game) QUICK_ANALYSIS_TIME of
             Inl e \<Rightarrow> Inl e
           | Inr current_analysis \<Rightarrow>
               analyze_moves self clock ops (start_board game) current_analysis 1 0 []
                 (mainline game)))"

section \<open>Deep analysis of one move\<close>

text \<open>
  The local variables of the loop of \<^verbatim>\<open>analyze_specific_move\<close> (lines 348 to 352); the
  primed names are those that the loop of \<^verbatim>\<open>analyze_position\<close> uses too.
\<close>

record deep_tracking =
  last_pv :: "move list option"
  last_eval :: "real option"
  last_depth' :: nat
  last_best_move' :: "move option"
  last_change_time' :: real

definition initial_deep_tracking :: "real \<Rightarrow> deep_tracking" where
  "initial_deep_tracking start_time =
     \<lparr>last_pv = None, last_eval = None, last_depth' = 0, last_best_move' = None,
      last_change_time' = start_time\<rparr>"

text \<open>
  The body of the loop at lines 364 to 441 for one update. Here the tracked variation and
  evaluation are stored before the stability test.
\<close>

definition deep_step :: "real \<Rightarrow> real \<Rightarrow> deep_tracking \<Rightarrow> real \<times> info \<Rightarrow> deep_tracking loop" where
  "deep_step start_time duration_seconds st u =
     (case u of (now, i) \<Rightarrow>
        (case pv i of
           None \<Rightarrow> Continue st
         | Some [] \<Rightarrow> Continue st
         | Some (current_best_move # rest) \<Rightarrow>
             let best_move_changed =
                   (last_pv st = None \<or> Some current_best_move \<noteq> last_best_move' st);
                 st' = st\<lparr>last_pv := Some (current_best_move # rest),
                          last_eval := extract_evaluation i,
                          last_depth' := depth_of i,
                          last_best_move' := Some current_best_move,
                          last_change_time' :=
                            (if best_move_changed then now else last_change_time' st)\<rparr>
             in
               if \<not> best_move_changed \<and> ANALYSIS_MODE = ''stability''
                  \<and> now - last_change_time' st \<ge> STABILITY_THRESHOLD then Break st'
               else if ANALYSIS_MODE = ''time'' \<and> now - start_time > duration_seconds
                 then Break st'
               else Continue st'))"

fun deep_loop ::
  "real \<Rightarrow> real \<Rightarrow> deep_tracking \<Rightarrow> (real \<times> info) list \<Rightarrow> deep_tracking \<times> bool" where
  "deep_loop start_time duration_seconds st [] = (st, False)"
| "deep_loop start_time duration_seconds st (u # us) =
     (case deep_step start_time duration_seconds st u of
        Break st' \<Rightarrow> (st', True)
      | Continue st' \<Rightarrow> deep_loop start_time duration_seconds st' us)"

text \<open>
  What the final lines of the report show (lines 449 to 467): the final variation, its
  evaluation, and the advantage over the move that was played when that one was evaluated.
\<close>

record deep_report =
  final_variation :: "move list"
  final_evaluation :: real
  pv_advantage :: "real option"

text \<open>
  \<^verbatim>\<open>GameAnalyzer.analyze_specific_move\<close> (lines 303 to 467). The method prints and returns
  nothing; the model returns what the final lines print, or nothing when no variation was
  received. Formatting an absent final evaluation at line 459 raises a type error.
\<close>

definition analyze_specific_move ::
  "'b game_analyzer \<Rightarrow> 'b clock \<Rightarrow> 'b board_ops \<Rightarrow> 'b \<Rightarrow> real \<Rightarrow> move option \<Rightarrow>
   error + deep_report option" where
  "analyze_specific_move self clock ops board duration_seconds actual_move =
     (case engine self of
        None \<Rightarrow> Inl not_initialized
      | Some eng \<Rightarrow>
          let actual_move_eval =
                (case actual_move of
                   None \<Rightarrow> None
                 | Some played \<Rightarrow>
                     (case analyze_position self clock (op_push ops board played) 10 of
                        Inl _ \<Rightarrow> None
                      | Inr actual_analysis \<Rightarrow>
                          (case evaluation actual_analysis of
                             None \<Rightarrow> None
                           | Some e \<Rightarrow> Some (- e))));
              start_time = fst (clock board);
              analysis_limit =
                (if ANALYSIS_MODE = ''stability'' then 86400 else duration_seconds);
              st = fst (deep_loop start_time duration_seconds
                          (initial_deep_tracking start_time) (analysis eng board analysis_limit))
          in
            (case last_pv st of
               None \<Rightarrow> Inr None
             | Some [] \<Rightarrow> Inr None
             | Some (m # ms) \<Rightarrow>
                 (case last_eval st of
                    None \<Rightarrow> Inl (TypeError ''unsupported format string passed to NoneType.__format__'')
                  | Some e \<Rightarrow>
                      Inr (Some \<lparr>final_variation = take 7 (m # ms),
                                 final_evaluation = e,
                                 pv_advantage =
                                   (case actual_move_eval of
                                      None \<Rightarrow> None
                                    | Some played_eval \<Rightarrow> Some (e - played_eval))\<rparr>))))"

section \<open>Ranking the worst moves\<close>

text \<open>The condition of the list comprehension at lines 173 to 177.\<close>

definition eligible :: "move_data \<Rightarrow> bool" where
  "eligible m =
     (eval_change m \<noteq> None \<and>
      (eval_before m = None \<or> \<bar>the (eval_before m)\<bar> \<le> GAME_OVER_EVAL_THRESHOLD))"

text \<open>The sort key at line 180, read on records whose swing is present.\<close>

definition swing_key :: "move_data \<Rightarrow> real" where
  "swing_key m = the (eval_change m)"

text \<open>
  \<^verbatim>\<open>GameAnalyzer.find_worst_moves\<close> (lines 170 to 182) as a function of the records in
  the list. Python's \<^verbatim>\<open>list.sort\<close> is a stable sort, as \<^const>\<open>sort_key\<close> is.
\<close>

definition find_worst_moves :: "move_data list \<Rightarrow> move_data list" where
  "find_worst_moves analysis' = take TOP_N (sort_key swing_key (filter eligible analysis'))"

text \<open>
  The same method on an explicit store, where lists and dictionaries are objects: a list
  object holds references to dictionary objects, a reference is an index into the store,
  and a new object is allocated at the end. The comprehension allocates the list
  \<open>moves_with_change\<close>, \<^verbatim>\<open>sort\<close> updates that new list in place, and the slice allocates
  the list that is returned.
\<close>

type_synonym ref = nat

record store =
  list_objects :: "ref list list"
  dict_objects :: "move_data list"

definition find_worst_moves_store :: "store \<Rightarrow> ref \<Rightarrow> store \<times> ref" where
  "find_worst_moves_store s analysis' =
     (let moves_with_change = length (list_objects s);
          s1 = s\<lparr>list_objects := list_objects s @
                  [filter (\<lambda>r. eligible (dict_objects s ! r)) (list_objects s ! analysis')]\<rparr>;
          s2 = s1\<lparr>list_objects := (list_objects s1)
                  [moves_with_change :=
                     sort_key (\<lambda>r. swing_key (dict_objects s1 ! r))
                       (list_objects s1 ! moves_with_change)]\<rparr>;
          result = length (list_objects s2);
          s3 = s2\<lparr>list_objects := list_objects s2 @
                  [take TOP_N (list_objects s2 ! moves_with_change)]\<rparr>
      in (s3, result))"

text \<open>A reference to a list object is valid when it and the references it holds are allocated.\<close>

definition valid_list_ref :: "store \<Rightarrow> ref \<Rightarrow> bool" where
  "valid_list_ref s a =
     (a < length (list_objects s) \<and>
      list_all (\<lambda>r. r < length (dict_objects s)) (list_objects s ! a))"

text \<open>The records that a list object refers to, in order.\<close>

definition records_of :: "store \<Rightarrow> ref \<Rightarrow> move_data list" where
  "records_of s a = map (\<lambda>r. dict_objects s ! r) (list_objects s ! a)"

section \<open>Update streams and sample data used in the statements\<close>

text \<open>The leading move of an update, when it carries a variation that is not empty.\<close>

definition leading_move :: "info \<Rightarrow> move option" where
  "leading_move i = (case pv i of Some (m # _) \<Rightarrow> Some m | _ \<Rightarrow> None)"

text \<open>A stream whose updates lead with \<open>a\<close>, \<open>b\<close>, \<open>a\<close>, \<open>b\<close>, and so on.\<close>

fun alternates :: "move \<Rightarrow> move \<Rightarrow> (real \<times> info) list \<Rightarrow> bool" where
  "alternates a b [] = True"
| "alternates a b (u # us) = (leading_move (snd u) = Some a \<and> alternates b a us)"

text \<open>Consecutive updates of the stream are at most \<open>d\<close> seconds apart.\<close>

fun gaps_at_most :: "real \<Rightarrow> (real \<times> info) list \<Rightarrow> bool" where
  "gaps_at_most d [] = True"
| "gaps_at_most d [u] = True"
| "gaps_at_most d (u # v # us) = (fst v - fst u \<le> d \<and> gaps_at_most d (v # us))"

text \<open>An update with a variation, a centipawn score and a depth.\<close>

definition update :: "move list \<Rightarrow> int \<Rightarrow> nat \<Rightarrow> info" where
  "update line c d = \<lparr>pv = Some line, score = Some (Cp c), depth = Some d\<rparr>"

text \<open>An engine that answers every streaming request with the given stream.\<close>

definition streaming_engine :: "(real \<times> info) list \<Rightarrow> nat uci_engine" where
  "streaming_engine us = \<lparr>analyse = (\<lambda>board limit. []), analysis = (\<lambda>board limit. us)\<rparr>"

text \<open>
  Boards as the number of plies played, for the concrete instances below: every move is
  rendered as itself, White moves at even counts and no position ends the game.
\<close>

definition counting_ops :: "nat board_ops" where
  "counting_ops =
     \<lparr>op_push = (\<lambda>board m. Suc board), op_san = (\<lambda>board m. m), op_fen = (\<lambda>board. ''''),
      op_is_game_over = (\<lambda>board. False), op_turn_white = (\<lambda>board. even board)\<rparr>"

text \<open>A record of ply \<open>k\<close> with the given pre-move evaluation and swing.\<close>

definition sample_move :: "nat \<Rightarrow> real option \<Rightarrow> real option \<Rightarrow> move_data" where
  "sample_move k before change =
     \<lparr>move_number = k div 2 + 1,
      player = (if even k then ''White'' else ''Black''),
      move = ''e2e4'', san = ''e4'',
      eval_before = before, eval_after = None, eval_change = change,
      board_fen = '''', pre_move_fen = '''', ply_index = k,
      time_taken_before = 0, time_taken_after = 0,
      position_analysis =
        \<lparr>best_move = None, evaluation = before, principal_variation = [], time_taken = 0\<rparr>\<rparr>"

text \<open>Five plies: one in a decided position, one without a pre-move evaluation, one without a swing.\<close>

definition sample_analysis :: "move_data list" where
  "sample_analysis =
     [sample_move 0 (Some (1 / 5)) (Some (- 1)), sample_move 1 (Some 15) (Some (- 30)),
      sample_move 2 None (Some (- 1)), sample_move 3 (Some 0) None,
      sample_move 4 (Some 1) (Some (- (27 / 10)))]"

text \<open>
  A stream whose second update keeps the leading move, refines score and variation, and
  arrives ten seconds after the first.
\<close>

definition refined_stream :: "(real \<times> info) list" where
  "refined_stream =
     [(0, update [''e2e4''] 20 10), (10, update [''e2e4'', ''e7e5''] 35 20)]"

text \<open>A stream that changes its leading move every five seconds, for twenty seconds.\<close>

definition alternating_stream :: "(real \<times> info) list" where
  "alternating_stream =
     [(0, update [''e2e4''] 20 10), (5, update [''d2d4''] 25 11), (10, update [''e2e4''] 22 12),
      (15, update [''d2d4''] 24 13), (20, update [''e2e4''] 21 14)]"

text \<open>An analyzer whose engine is running, and one that was never started.\<close>

definition started_analyzer :: "(real \<times> info) list \<Rightarrow> nat game_analyzer" where
  "started_analyzer us =
     \<lparr>stockfish_path = ''/usr/bin/stockfish'', engine = Some (streaming_engine us)\<rparr>"

definition fresh_analyzer :: "nat game_analyzer" where
  "fresh_analyzer = \<lparr>stockfish_path = ''/usr/bin/stockfish'', engine = None\<rparr>"

text \<open>A clock that reads 0 before and 10 after every request.\<close>

definition ten_seconds :: "nat clock" where
  "ten_seconds = (\<lambda>board. (0, 10))"

text \<open>A store with the records of \<open>sample_analysis\<close> and one list object that holds them all.\<close>

definition sample_store :: store where
  "sample_store = \<lparr>list_objects = [[0, 1, 2, 3, 4]], dict_objects = sample_analysis\<rparr>"

section \<open>Properties of the normaliser and of the swing\<close>

lemma extract_evaluation_mated:
  "d \<le> 0 \<Longrightarrow> extract_evaluation (i\<lparr>score := Some (Mate d)\<rparr>) = Some (- 99)"
  by (simp add: extract_evaluation_def)

lemma extract_evaluation_mating_near:
  "0 < d \<Longrightarrow> d \<le> 901 \<Longrightarrow> extract_evaluation (i\<lparr>score := Some (Mate d)\<rparr>) = Some 99"
  by (simp add: extract_evaluation_def)

text \<open>
  Claim C1. When both evaluations are present the swing is the negated post-move
  evaluation minus the pre-move evaluation, and the swing is absent exactly when one of
  the two evaluations is absent.
\<close>

theorem eval_change_spec:
  "calculate_eval_change (Some b) (Some a) = Some ((- a) - b) \<and>
   (calculate_eval_change eb ea = None \<longleftrightarrow> eb = None \<or> ea = None)"
  by (simp add: calculate_eval_change_def)

theorem eval_change_spec_witness:
  "calculate_eval_change (Some (1 / 5)) (Some (5 / 2)) = Some (- (27 / 10)) \<and>
   (calculate_eval_change None (Some 0) = None \<longleftrightarrow> (None :: real option) = None \<or> Some (0 :: real) = None)"
  using eval_change_spec [of "1 / 5" "5 / 2" None "Some 0"] by simp

text \<open>
  Claim C2, as stated: a mate in \<open>N\<close> moves against the side to move maps to
  \<open>max(-99, -1000 + N)\<close>. The engine reports that verdict as the distance \<open>-N\<close>, and the
  code adds this signed distance to \<open>-1000\<close>: for \<open>N = 950\<close> the score is -99, not
  \<open>max(-99, -1000 + 950) = -50\<close>.
\<close>

theorem mated_formula_counterexample:
  "extract_evaluation (score_only (Some (Mate (- 950)))) \<noteq>
     Some (real_of_int (max (- 99) (- 1000 + 950)))"
  by (simp add: extract_evaluation_def score_only_def)

text \<open>
  Claim C2, amended. A mate in \<open>N\<close> moves for the side to move gives \<open>min(99, 1000 - N)\<close>;
  a mate in \<open>N\<close> moves against it, reported as the distance \<open>-N\<close>, gives
  \<open>max(-99, -1000 - N)\<close>, which is -99 for every \<open>N\<close>; a centipawn value \<open>c\<close> gives \<open>c / 100\<close>
  with no clamping; and an update without a score gives an absent value.
\<close>

theorem extract_evaluation_amended:
  "(0 < n \<longrightarrow>
      extract_evaluation (i\<lparr>score := Some (Mate n)\<rparr>) = Some (real_of_int (min 99 (1000 - n)))) \<and>
   (0 \<le> n \<longrightarrow>
      extract_evaluation (i\<lparr>score := Some (Mate (- n))\<rparr>) =
        Some (real_of_int (max (- 99) (- 1000 - n))) \<and>
      extract_evaluation (i\<lparr>score := Some (Mate (- n))\<rparr>) = Some (- 99)) \<and>
   extract_evaluation (i\<lparr>score := Some (Cp c)\<rparr>) = Some (real_of_int c / 100) \<and>
   extract_evaluation (i\<lparr>score := None\<rparr>) = None"
  by (simp add: extract_evaluation_def)

theorem extract_evaluation_amended_witness:
  "extract_evaluation (score_only (Some (Mate 3))) = Some 99 \<and>
   extract_evaluation (score_only (Some (Mate 950))) = Some 50 \<and>
   extract_evaluation (score_only (Some (Mate (- 3)))) = Some (- 99) \<and>
   extract_evaluation (score_only (Some (Mate (- 950)))) = Some (- 99) \<and>
   extract_evaluation (score_only (Some (Cp 12345))) = Some (2469 / 20) \<and>
   extract_evaluation (score_only None) = None"
  using extract_evaluation_amended [of 3 "score_only None" 12345]
    extract_evaluation_amended [of 950 "score_only None" 12345]
  by (simp add: score_only_def)

text \<open>
  Claim C5, as stated: every score that the normaliser produces is absent or lies in
  \<open>[-99, 99]\<close>. It fails for a centipawn value of 10000, which becomes 100 pawns.
\<close>

theorem score_range_counterexample:
  "\<not> within_bounds (extract_evaluation (score_only (Some (Cp 10000))))"
  by (simp add: extract_evaluation_def score_only_def)

text \<open>
  Claim C5, amended. The score is absent when the update has no score and present
  otherwise; for a mate against the side to move, and for a mate for it in at most 1099
  moves, it lies in \<open>[-99, 99]\<close>; for a centipawn value \<open>c\<close> it is \<open>c / 100\<close>, not clamped,
  which lies in \<open>[-99, 99]\<close> exactly when \<open>\<bar>c\<bar> \<le> 9900\<close>.
\<close>

theorem score_range_amended:
  "extract_evaluation (i\<lparr>score := None\<rparr>) = None \<and>
   extract_evaluation (i\<lparr>score := Some (Mate d)\<rparr>) \<noteq> None \<and>
   (d \<le> 1099 \<longrightarrow> within_bounds (extract_evaluation (i\<lparr>score := Some (Mate d)\<rparr>))) \<and>
   extract_evaluation (i\<lparr>score := Some (Cp c)\<rparr>) = Some (real_of_int c / 100) \<and>
   (within_bounds (extract_evaluation (i\<lparr>score := Some (Cp c)\<rparr>)) \<longleftrightarrow> \<bar>c\<bar> \<le> 9900)"
  by (auto simp add: extract_evaluation_def)

theorem score_range_amended_witness:
  "extract_evaluation (score_only None) = None \<and>
   extract_evaluation (score_only (Some (Mate 7))) = Some 99 \<and>
   within_bounds (extract_evaluation (score_only (Some (Mate 7)))) \<and>
   within_bounds (extract_evaluation (score_only (Some (Mate (- 7))))) \<and>
   extract_evaluation (score_only (Some (Cp (- 9900)))) = Some (- 99) \<and>
   within_bounds (extract_evaluation (score_only (Some (Cp (- 9900))))) \<and>
   extract_evaluation (score_only (Some (Cp 9901))) = Some (9901 / 100) \<and>
   \<not> within_bounds (extract_evaluation (score_only (Some (Cp 9901))))"
  using score_range_amended [of "score_only None" 7 "- 9900"]
    score_range_amended [of "score_only None" "- 7" 9901]
  by (simp add: score_only_def extract_evaluation_def)

text \<open>
  Claim C8, as stated: a mate in 1 maps to a strictly larger magnitude than a mate in 5 for
  the same side. Both map to 99 (and to -99 when the side to move is mated), so neither
  magnitude is strictly larger.
\<close>

theorem mate_strict_counterexample:
  "\<not> larger_magnitude (extract_evaluation (score_only (Some (Mate 1))))
        (extract_evaluation (score_only (Some (Mate 5)))) \<and>
   \<not> larger_magnitude (extract_evaluation (score_only (Some (Mate (- 1)))))
        (extract_evaluation (score_only (Some (Mate (- 5)))))"
  by (simp add: extract_evaluation_def score_only_def)

text \<open>
  Claim C8, amended. The normaliser is weakly monotonic in mate distance for equal sign:
  for two mates for the side to move in \<open>d1 \<le> d2 \<le> 1000\<close> moves, and for two mates
  against it with \<open>d2 \<le> d1 < 0\<close>, the closer mate \<open>d1\<close> has a magnitude that is not
  smaller; a mate in 1 and a mate in 5 map to the same score, 99.
\<close>

theorem mate_weakly_monotonic:
  "(0 < d1 \<and> d1 \<le> d2 \<and> d2 \<le> 1000 \<longrightarrow>
      not_smaller_magnitude (extract_evaluation (i\<lparr>score := Some (Mate d1)\<rparr>))
        (extract_evaluation (i\<lparr>score := Some (Mate d2)\<rparr>))) \<and>
   (d2 \<le> d1 \<and> d1 < 0 \<longrightarrow>
      not_smaller_magnitude (extract_evaluation (i\<lparr>score := Some (Mate d1)\<rparr>))
        (extract_evaluation (i\<lparr>score := Some (Mate d2)\<rparr>))) \<and>
   extract_evaluation (i\<lparr>score := Some (Mate 1)\<rparr>) = Some 99 \<and>
   extract_evaluation (i\<lparr>score := Some (Mate 5)\<rparr>) = Some 99"
  by (auto simp add: extract_evaluation_def)

theorem mate_weakly_monotonic_witness:
  "not_smaller_magnitude (extract_evaluation (score_only (Some (Mate 905))))
     (extract_evaluation (score_only (Some (Mate 950)))) \<and>
   not_smaller_magnitude (extract_evaluation (score_only (Some (Mate (- 1)))))
     (extract_evaluation (score_only (Some (Mate (- 5))))) \<and>
   extract_evaluation (score_only (Some (Mate 1))) = Some 99 \<and>
   extract_evaluation (score_only (Some (Mate 5))) = Some 99"
  using mate_weakly_monotonic [of 905 950 "score_only None"]
    mate_weakly_monotonic [of "- 1" "- 5" "score_only None"]
  by (simp add: score_only_def)

section \<open>Properties of the time limit\<close>

lemma time_limit_for_quick_iff:
  "time_limit_for ply e = QUICK_ANALYSIS_TIME \<longleftrightarrow>
     ply + 1 < QUICK_ANALYSIS_PLY \<or> (e \<noteq> None \<and> \<bar>the e\<bar> > GAME_OVER_EVAL_THRESHOLD)"
  by (simp add: time_limit_for_def TIME_LIMIT_def QUICK_ANALYSIS_TIME_def)

lemma time_limit_for_first_ply: "time_limit_for 0 e = QUICK_ANALYSIS_TIME"
  by (simp add: time_limit_for_def QUICK_ANALYSIS_PLY_def)

text \<open>
  Claim C3. The claim grants the quick budget to every ply whose index is below the
  threshold of 50, as the comments at lines 20 and 95 say (the first 50 ply). The code
  tests \<open>ply_index + 1 < 50\<close>: at ply index 49, with an even pre-move evaluation, it grants
  the deep budget of 11 seconds, although \<open>49 < 50\<close>.
\<close>

theorem time_limit_ply_49:
  "49 < QUICK_ANALYSIS_PLY \<and> time_limit_for 49 (Some 0) = TIME_LIMIT \<and>
   time_limit_for 49 (Some 0) \<noteq> QUICK_ANALYSIS_TIME"
  by (simp add: time_limit_for_def QUICK_ANALYSIS_PLY_def GAME_OVER_EVAL_THRESHOLD_def
      TIME_LIMIT_def QUICK_ANALYSIS_TIME_def)

section \<open>Properties of the ranking\<close>

lemma find_worst_moves_eligible: "m \<in> set (find_worst_moves xs) \<Longrightarrow> eligible m"
  unfolding find_worst_moves_def
  using set_take_subset [of TOP_N "sort_key swing_key (filter eligible xs)"]
  by auto

lemma sorted_take_map: "sorted (map f ys) \<Longrightarrow> sorted (map f (take n ys))"
  by (simp add: take_map [symmetric] sorted_wrt_take)

lemma find_worst_moves_sorted: "sorted (map swing_key (find_worst_moves xs))"
  unfolding find_worst_moves_def by (rule sorted_take_map) simp

lemma find_worst_moves_stable:
  "prefix (filter (\<lambda>m. swing_key m = k) (find_worst_moves xs))
          (filter (\<lambda>m. swing_key m = k) (filter eligible xs))"
proof -
  have "prefix (filter (\<lambda>m. swing_key m = k) (find_worst_moves xs))
          (filter (\<lambda>m. swing_key m = k) (sort_key swing_key (filter eligible xs)))"
    unfolding find_worst_moves_def by (rule filter_mono_prefix) (rule take_is_prefix)
  then show ?thesis by (simp only: sort_key_stable)
qed

lemma find_worst_moves_length: "length (find_worst_moves xs) \<le> TOP_N"
  by (simp add: find_worst_moves_def)

lemma find_worst_moves_subseq: "subseq (find_worst_moves xs) (sort_key swing_key (filter eligible xs))"
  unfolding find_worst_moves_def by (rule prefix_imp_subseq) (rule take_is_prefix)

text \<open>
  Claim C4. The result of \<^verbatim>\<open>find_worst_moves\<close> holds no record whose swing is absent and
  no record whose pre-move evaluation is present with a magnitude above the threshold (a
  record without a pre-move evaluation passes the filter, and every record that passes is
  returned when at most \<open>TOP_N\<close> do); it is sorted by ascending
  swing; for every swing value, the records of the result with that swing are, in the
  order of the input, the first of the eligible input records with that swing; and it has
  at most \<open>TOP_N\<close> records.
\<close>

theorem find_worst_moves_spec:
  "(\<forall>m \<in> set (find_worst_moves xs). eval_change m \<noteq> None) \<and>
   (\<forall>m \<in> set (find_worst_moves xs). \<forall>e. eval_before m = Some e \<longrightarrow> \<bar>e\<bar> \<le> GAME_OVER_EVAL_THRESHOLD) \<and>
   (\<forall>m \<in> set xs. eval_change m \<noteq> None \<and> eval_before m = None \<longrightarrow> eligible m) \<and>
   (length (filter eligible xs) \<le> TOP_N \<longrightarrow>
      set (find_worst_moves xs) = {m \<in> set xs. eligible m}) \<and>
   sorted (map (\<lambda>m. the (eval_change m)) (find_worst_moves xs)) \<and>
   (\<forall>k. prefix (filter (\<lambda>m. eval_change m = Some k) (find_worst_moves xs))
               (filter (\<lambda>m. eval_change m = Some k) (filter eligible xs))) \<and>
   length (find_worst_moves xs) \<le> TOP_N"
proof (intro conjI ballI allI impI)
  fix m assume "m \<in> set (find_worst_moves xs)"
  then show "eval_change m \<noteq> None"
    using find_worst_moves_eligible [of m xs] by (simp add: eligible_def)
next
  fix m e assume "m \<in> set (find_worst_moves xs)" and "eval_before m = Some e"
  then show "\<bar>e\<bar> \<le> GAME_OVER_EVAL_THRESHOLD"
    using find_worst_moves_eligible [of m xs] by (simp add: eligible_def)
next
  fix m assume "m \<in> set xs" and "eval_change m \<noteq> None \<and> eval_before m = None"
  then show "eligible m" by (simp add: eligible_def)
next
  assume "length (filter eligible xs) \<le> TOP_N"
  then show "set (find_worst_moves xs) = {m \<in> set xs. eligible m}"
    by (simp add: find_worst_moves_def)
next
  show "sorted (map (\<lambda>m. the (eval_change m)) (find_worst_moves xs))"
    using find_worst_moves_sorted [of xs] by (simp add: swing_key_def [abs_def])
next
  fix k
  have same: "filter (\<lambda>m. eval_change m = Some k) ys = filter (\<lambda>m. swing_key m = k) ys"
    if "\<forall>m \<in> set ys. eligible m" for ys
    using that by (intro filter_cong refl) (auto simp add: eligible_def swing_key_def)
  have "\<forall>m \<in> set (find_worst_moves xs). eligible m"
    using find_worst_moves_eligible by blast
  moreover have "\<forall>m \<in> set (filter eligible xs). eligible m" by simp
  ultimately show "prefix (filter (\<lambda>m. eval_change m = Some k) (find_worst_moves xs))
               (filter (\<lambda>m. eval_change m = Some k) (filter eligible xs))"
    using find_worst_moves_stable [of k xs] by (simp only: same)
next
  show "length (find_worst_moves xs) \<le> TOP_N" by (rule find_worst_moves_length)
qed

lemma find_worst_moves_sample:
  "find_worst_moves sample_analysis =
     [sample_move 4 (Some 1) (Some (- (27 / 10))), sample_move 0 (Some (1 / 5)) (Some (- 1)),
      sample_move 2 None (Some (- 1))]"
  by (simp add: find_worst_moves_def eligible_def swing_key_def sample_move_def TOP_N_def
      GAME_OVER_EVAL_THRESHOLD_def sample_analysis_def)

theorem find_worst_moves_spec_witness:
  "find_worst_moves sample_analysis =
     [sample_move 4 (Some 1) (Some (- (27 / 10))), sample_move 0 (Some (1 / 5)) (Some (- 1)),
      sample_move 2 None (Some (- 1))] \<and>
   map eval_change (find_worst_moves sample_analysis) =
     [Some (- (27 / 10)), Some (- 1), Some (- 1)] \<and>
   eval_change (sample_move 4 (Some 1) (Some (- (27 / 10)))) \<noteq> None \<and>
   eligible (sample_move 2 None (Some (- 1))) \<and>
   sorted (map (\<lambda>m. the (eval_change m)) (find_worst_moves sample_analysis)) \<and>
   prefix (filter (\<lambda>m. eval_change m = Some (- 1)) (find_worst_moves sample_analysis))
     (filter (\<lambda>m. eval_change m = Some (- 1)) (filter eligible sample_analysis)) \<and>
   length (find_worst_moves sample_analysis) \<le> TOP_N"
proof -
  note spec = find_worst_moves_spec [of sample_analysis]
  have first: "sample_move 4 (Some 1) (Some (- (27 / 10))) \<in> set (find_worst_moves sample_analysis)"
    by (simp add: find_worst_moves_sample)
  have third: "sample_move 2 None (Some (- 1)) \<in> set sample_analysis"
    by (simp add: sample_analysis_def)
  have swings: "map eval_change (find_worst_moves sample_analysis) =
     [Some (- (27 / 10)), Some (- 1), Some (- 1)]"
    by (simp add: find_worst_moves_sample sample_move_def)
  have "eval_change (sample_move 4 (Some 1) (Some (- (27 / 10)))) \<noteq> None"
    using spec first by blast
  moreover have "eligible (sample_move 2 None (Some (- 1)))"
    using spec third by (simp add: sample_move_def)
  moreover have "sorted (map (\<lambda>m. the (eval_change m)) (find_worst_moves sample_analysis))"
    using spec by blast
  moreover have "prefix (filter (\<lambda>m. eval_change m = Some (- 1)) (find_worst_moves sample_analysis))
     (filter (\<lambda>m. eval_change m = Some (- 1)) (filter eligible sample_analysis))"
    using spec by blast
  moreover have "length (find_worst_moves sample_analysis) \<le> TOP_N"
    using spec by blast
  ultimately show ?thesis
    using find_worst_moves_sample swings by blast
qed

section \<open>Properties of the stability loop\<close>

lemma stability_step_change:
  "pv i = Some (m # ms) \<Longrightarrow> last_best_move st \<noteq> Some m \<Longrightarrow>
   stability_step st (now, i) =
     Continue (st\<lparr>last_best_move := Some m, last_change_time := now,
                  best_pv := Some (m # ms), best_eval := extract_evaluation i,
                  last_depth := depth_of i\<rparr>)"
  by (auto simp add: stability_step_def)

lemma stability_step_refinement:
  "pv i = Some (m # ms) \<Longrightarrow> last_best_move st = Some m \<Longrightarrow>
   now - last_change_time st < STABILITY_THRESHOLD \<Longrightarrow>
   stability_step st (now, i) =
     Continue (st\<lparr>best_pv := Some (m # ms), best_eval := extract_evaluation i,
                  last_depth := depth_of i\<rparr>)"
  by (simp add: stability_step_def)

lemma stability_step_stable:
  "pv i = Some (m # ms) \<Longrightarrow> last_best_move st = Some m \<Longrightarrow>
   now - last_change_time st \<ge> STABILITY_THRESHOLD \<Longrightarrow>
   stability_step st (now, i) = Break st"
  by (simp add: stability_step_def)

lemma deep_loop_refined_stream:
  "last_eval (fst (deep_loop 0 240 (initial_deep_tracking 0) refined_stream)) = Some (7 / 20) \<and>
   last_pv (fst (deep_loop 0 240 (initial_deep_tracking 0) refined_stream)) = Some [''e2e4'', ''e7e5'']"
  by (simp add: refined_stream_def update_def deep_step_def initial_deep_tracking_def
      extract_evaluation_def depth_of_def ANALYSIS_MODE_def STABILITY_THRESHOLD_def)

text \<open>
  Claim C6. The claim lets every update that keeps the tracked best move replace the
  tracked score and variation, so that the verdict carries those of the latest such update.
  In \<^verbatim>\<open>analyze_position\<close> the stability test at line 260 leaves the loop before the
  refinement at lines 266 and 267 (the loop of \<^verbatim>\<open>analyze_specific_move\<close> stores first and
  tests afterwards): for the stream below the verdict carries the score 0.20 and the
  variation of the first update, while the last update with the same leading move had the
  score 0.35 and a longer variation.
\<close>

theorem analyze_position_drops_last_refinement:
  "analyze_position (started_analyzer refined_stream) ten_seconds 0 TIME_LIMIT =
     Inr \<lparr>best_move = Some ''e2e4'', evaluation = Some (1 / 5),
          principal_variation = [''e2e4''], time_taken = 10\<rparr> \<and>
   leading_move (snd (refined_stream ! 1)) = Some ''e2e4'' \<and>
   extract_evaluation (snd (refined_stream ! 1)) = Some (7 / 20) \<and>
   pv (snd (refined_stream ! 1)) = Some [''e2e4'', ''e7e5'']"
  by (simp add: analyze_position_def started_analyzer_def streaming_engine_def ten_seconds_def
      refined_stream_def update_def stability_step_def initial_tracking_def leading_move_def
      extract_evaluation_def depth_of_def ANALYSIS_MODE_def STABILITY_THRESHOLD_def
      TIME_LIMIT_def QUICK_ANALYSIS_TIME_def)

lemma alternates_take: "alternates a b us \<Longrightarrow> alternates a b (take n us)"
proof (induction us arbitrary: a b n)
  case Nil
  then show ?case by simp
next
  case (Cons u us)
  then show ?case by (cases n) simp_all
qed

lemma alternation_goes_on:
  "alternates a b us \<Longrightarrow> a \<noteq> b \<Longrightarrow> last_best_move st \<noteq> Some a \<Longrightarrow>
   \<not> snd (stability_loop st us)"
proof (induction us arbitrary: a b st)
  case Nil
  then show ?case by simp
next
  case (Cons u us)
  obtain now i where u: "u = (now, i)" by (cases u)
  from Cons.prems(1) u obtain ms where line: "pv i = Some (a # ms)"
    by (auto simp add: leading_move_def split: option.splits list.splits)
  let ?st = "st\<lparr>last_best_move := Some a, last_change_time := now,
                  best_pv := Some (a # ms), best_eval := extract_evaluation i,
                  last_depth := depth_of i\<rparr>"
  have step: "stability_step st u = Continue ?st"
    using line Cons.prems(3) u by (simp add: stability_step_change)
  have "\<not> snd (stability_loop ?st us)"
  proof (rule Cons.IH)
    show "alternates b a us" using Cons.prems(1) by simp
    show "b \<noteq> a" using Cons.prems(2) by simp
    show "last_best_move ?st \<noteq> Some b" using Cons.prems(2) by simp
  qed
  then show ?case by (simp add: step)
qed

text \<open>
  Claim C7. In stability mode, on a stream whose updates alternate between two distinct
  leading moves and are at most half the quiet period apart, the loop is never left on
  stability: after any number of updates of the stream the detector has not converged.
\<close>

theorem alternation_never_converges:
  assumes "a \<noteq> b"
    and "alternates a b us"
    and "gaps_at_most (STABILITY_THRESHOLD / 2) us"
  shows "\<not> snd (stability_loop (initial_tracking start_time) (take n us))"
proof (rule alternation_goes_on)
  show "alternates a b (take n us)" using assms(2) by (rule alternates_take)
  show "a \<noteq> b" by (rule assms(1))
  show "last_best_move (initial_tracking start_time) \<noteq> Some a"
    by (simp add: initial_tracking_def)
qed

theorem alternation_never_converges_witness:
  "''e2e4'' \<noteq> ''d2d4'' \<and> alternates ''e2e4'' ''d2d4'' alternating_stream \<and>
   gaps_at_most (STABILITY_THRESHOLD / 2) alternating_stream \<and>
   \<not> snd (stability_loop (initial_tracking 0) (take 5 alternating_stream))"
proof -
  have distinct: "''e2e4'' \<noteq> ''d2d4''" by simp
  have alt: "alternates ''e2e4'' ''d2d4'' alternating_stream"
    by (simp add: alternating_stream_def update_def leading_move_def)
  have gaps: "gaps_at_most (STABILITY_THRESHOLD / 2) alternating_stream"
    by (simp add: alternating_stream_def STABILITY_THRESHOLD_def)
  show ?thesis
    using distinct alt gaps alternation_never_converges [OF distinct alt gaps, of 0 5]
    by blast
qed

section \<open>Calls before the engine is started\<close>

text \<open>
  Claim C9. When the engine has not been started, the analysis of a game, of a position
  and of a specific move each raise the runtime error about the engine, which is not a
  result with an absent score, and no list of records is returned.
\<close>

theorem engine_not_initialized:
  "analyze_game (self\<lparr>engine := None\<rparr>) clock ops game = Inl not_initialized \<and>
   analyze_position (self\<lparr>engine := None\<rparr>) clock board time_limit = Inl not_initialized \<and>
   analyze_specific_move (self\<lparr>engine := None\<rparr>) clock ops board duration actual_move =
     Inl not_initialized"
  by (simp add: analyze_game_def analyze_position_def analyze_specific_move_def)

theorem engine_not_initialized_witness:
  "analyze_game fresh_analyzer ten_seconds counting_ops
     \<lparr>start_board = 0, mainline = [''e2e4'', ''e7e5'']\<rparr> = Inl not_initialized \<and>
   analyze_position fresh_analyzer ten_seconds 0 TIME_LIMIT = Inl not_initialized \<and>
   analyze_specific_move fresh_analyzer ten_seconds counting_ops 0 240 (Some ''e2e4'') =
     Inl not_initialized"
  using engine_not_initialized
    [of fresh_analyzer ten_seconds counting_ops
      "\<lparr>start_board = 0, mainline = [''e2e4'', ''e7e5'']\<rparr>" 0 TIME_LIMIT 240 "Some ''e2e4''"]
  by (simp add: fresh_analyzer_def)

section \<open>The ranking leaves its argument alone\<close>

lemma insort_key_map:
  "insort_key k (f x) (map f xs) = map f (insort_key (\<lambda>y. k (f y)) x xs)"
  by (induction xs) simp_all

lemma sort_key_map: "sort_key k (map f xs) = map f (sort_key (\<lambda>y. k (f y)) xs)"
  by (induction xs) (simp_all add: insort_key_map)

lemma find_worst_moves_store_eq:
  "find_worst_moves_store s a =
     (s\<lparr>list_objects := list_objects s @
          [sort_key (\<lambda>r. swing_key (dict_objects s ! r))
             (filter (\<lambda>r. eligible (dict_objects s ! r)) (list_objects s ! a)),
           take TOP_N (sort_key (\<lambda>r. swing_key (dict_objects s ! r))
             (filter (\<lambda>r. eligible (dict_objects s ! r)) (list_objects s ! a)))]\<rparr>,
      Suc (length (list_objects s)))"
  by (simp add: find_worst_moves_store_def Let_def nth_append)

text \<open>
  Claim C10. \<^verbatim>\<open>find_worst_moves\<close> does not change its argument: after the call the list
  object that was passed holds the same references in the same order, every list object
  that existed before is unchanged, every dictionary object has the same contents, and
  the result is a list object that did not exist before, holding the ranked records.
\<close>

theorem find_worst_moves_frame:
  assumes "valid_list_ref s a"
  shows "list_objects (fst (find_worst_moves_store s a)) ! a = list_objects s ! a \<and>
    take (length (list_objects s)) (list_objects (fst (find_worst_moves_store s a))) =
      list_objects s \<and>
    dict_objects (fst (find_worst_moves_store s a)) = dict_objects s \<and>
    records_of (fst (find_worst_moves_store s a)) a = records_of s a \<and>
    length (list_objects s) \<le> snd (find_worst_moves_store s a) \<and>
    snd (find_worst_moves_store s a) < length (list_objects (fst (find_worst_moves_store s a))) \<and>
    records_of (fst (find_worst_moves_store s a)) (snd (find_worst_moves_store s a)) =
      find_worst_moves (records_of s a)"
proof -
  from assms have a: "a < length (list_objects s)"
    by (simp add: valid_list_ref_def)
  have ranked: "records_of (fst (find_worst_moves_store s a)) (snd (find_worst_moves_store s a)) =
      find_worst_moves (records_of s a)"
    by (simp add: find_worst_moves_store_eq records_of_def find_worst_moves_def nth_append
        take_map sort_key_map filter_map comp_def)
  show ?thesis
    using a ranked by (simp add: find_worst_moves_store_eq records_of_def nth_append)
qed

theorem find_worst_moves_frame_witness:
  "valid_list_ref sample_store 0 \<and>
   list_objects (fst (find_worst_moves_store sample_store 0)) ! 0 = [0, 1, 2, 3, 4] \<and>
   dict_objects (fst (find_worst_moves_store sample_store 0)) = sample_analysis \<and>
   snd (find_worst_moves_store sample_store 0) = 2 \<and>
   records_of (fst (find_worst_moves_store sample_store 0)) 2 = find_worst_moves sample_analysis"
proof -
  have valid: "valid_list_ref sample_store 0"
    by (simp add: valid_list_ref_def sample_store_def sample_analysis_def)
  have same: "records_of sample_store 0 = sample_analysis"
    by (simp add: records_of_def sample_store_def sample_analysis_def)
  have result: "snd (find_worst_moves_store sample_store 0) = 2"
    by (simp add: find_worst_moves_store_eq sample_store_def)
  show ?thesis
    using valid find_worst_moves_frame [OF valid] same result
    by (simp add: sample_store_def)
qed

end
